theory Spec2Isabelle
  imports Main
begin

section \<open>JavaScript values and string primitives\<close>

text \<open>
  The action is JavaScript. Strings are modelled as \<open>string\<close>; \<open>null\<close> and
  \<open>undefined\<close> as \<open>None\<close> of an option type. A JavaScript number that the
  program obtains from \<open>parseInt\<close> is an integer or \<open>NaN\<close>: it is modelled as
  \<open>int option\<close>, \<open>None\<close> being \<open>NaN\<close>. Integers are mathematical integers,
  which is what JavaScript computes as long as the magnitudes stay below \<open>2^53\<close>.
\<close>

type_synonym number = "int option"

text \<open>White space, for \<open>parseInt\<close> and \<open>trim\<close>: the ASCII white space characters.\<close>

definition is_space :: "char \<Rightarrow> bool" where
  "is_space c = (c \<in> {CHR '' '', CHR 0x09, CHR 0x0A, CHR 0x0B, CHR 0x0C, CHR 0x0D})"

definition is_digit :: "char \<Rightarrow> bool" where
  "is_digit c = (48 \<le> (of_char c :: nat) \<and> (of_char c :: nat) \<le> 57)"

definition digit_val :: "char \<Rightarrow> nat" where
  "digit_val c = of_char c - 48"

definition digits_value :: "string \<Rightarrow> nat" where
  "digits_value z = foldl (\<lambda>a c. 10 * a + digit_val c) 0 z"

text \<open>
  \<open>parseInt(s, 10)\<close>: leading white space is skipped, one sign is accepted, then the
  longest run of decimal digits is read; with no digit the result is \<open>NaN\<close>.
\<close>

definition parseInt :: "string \<Rightarrow> number" where
  "parseInt s =
     (let t = dropWhile is_space s;
          neg = (case t of c # _ \<Rightarrow> c = CHR ''-'' | [] \<Rightarrow> False);
          u = (case t of c # r \<Rightarrow> if c = CHR ''+'' \<or> c = CHR ''-'' then r else t | [] \<Rightarrow> t);
          z = takeWhile is_digit u
      in if z = [] then None
         else Some (if neg then - int (digits_value z) else int (digits_value z)))"

text \<open>\<open>parseInt(a[i], 10)\<close> for an array element that may be \<open>undefined\<close>
  (\<open>parseInt(undefined)\<close> is \<open>NaN\<close>).\<close>

definition parseInt_at :: "string list \<Rightarrow> nat \<Rightarrow> number" where
  "parseInt_at a i = (if i < length a then parseInt (a ! i) else None)"

text \<open>\<open>x || 0\<close> on a number: \<open>NaN\<close> and \<open>0\<close> are falsy.\<close>

definition or_zero :: "number \<Rightarrow> int" where
  "or_zero x = (case x of None \<Rightarrow> 0 | Some i \<Rightarrow> i)"

text \<open>\<open>s.split(sep)\<close> for a one-character separator; the array is never empty.\<close>

fun split :: "char \<Rightarrow> string \<Rightarrow> string list" where
  "split sep [] = [[]]"
| "split sep (c # cs) =
     (if c = sep then [] # split sep cs
      else (case split sep cs of x # xs \<Rightarrow> (c # x) # xs | [] \<Rightarrow> [[c]]))"

text \<open>Number to string, as a template literal does it.\<close>

definition digit_char :: "nat \<Rightarrow> char" where
  "digit_char d = char_of (48 + d)"

fun nat_to_string :: "nat \<Rightarrow> string" where
  "nat_to_string n =
     (if n < 10 then [digit_char n] else nat_to_string (n div 10) @ [digit_char (n mod 10)])"

definition number_to_string :: "number \<Rightarrow> string" where
  "number_to_string x =
     (case x of None \<Rightarrow> ''NaN''
      | Some i \<Rightarrow> if i < 0 then CHR ''-'' # nat_to_string (nat (- i)) else nat_to_string (nat i))"

text \<open>\<open>a + 1\<close>, \<open>a > b\<close>, \<open>a < b\<close> and \<open>a <= b\<close> on numbers: arithmetic on
  \<open>NaN\<close> gives \<open>NaN\<close> and every comparison with \<open>NaN\<close> is false.\<close>

definition num_succ :: "number \<Rightarrow> number" where
  "num_succ x = map_option (\<lambda>i. i + 1) x"

definition num_gt :: "number \<Rightarrow> number \<Rightarrow> bool" where
  "num_gt a b = (case (a, b) of (Some x, Some y) \<Rightarrow> x > y | _ \<Rightarrow> False)"

definition num_lt :: "number \<Rightarrow> number \<Rightarrow> bool" where
  "num_lt a b = (case (a, b) of (Some x, Some y) \<Rightarrow> x < y | _ \<Rightarrow> False)"

definition num_le :: "number \<Rightarrow> number \<Rightarrow> bool" where
  "num_le a b = (case (a, b) of (Some x, Some y) \<Rightarrow> x \<le> y | _ \<Rightarrow> False)"

section \<open>Version parsing, comparison and increment (src/index.js)\<close>

record version =
  major :: int
  minor :: int
  patch :: int
  build :: number
  base :: string
  full :: string

text \<open>\<open>parseFlutterVersion\<close>, lines 14-29. \<open>!versionStr\<close> holds for \<open>null\<close> and
  for the empty string.\<close>

definition parseFlutterVersion :: "string option \<Rightarrow> version option" where
  "parseFlutterVersion versionStr =
     (case versionStr of
        None \<Rightarrow> None
      | Some s \<Rightarrow>
          if s = [] then None
          else (case split CHR ''+'' s of
                  [] \<Rightarrow> None
                | p0 # ps \<Rightarrow>
                    let baseParts = split CHR ''.'' p0;
                        buildNumber = (case ps of
                                         [] \<Rightarrow> Some 0
                                       | p1 # _ \<Rightarrow> if p1 = [] then Some 0 else parseInt p1)
                    in Some \<lparr> major = or_zero (parseInt_at baseParts 0),
                              minor = or_zero (parseInt_at baseParts 1),
                              patch = or_zero (parseInt_at baseParts 2),
                              build = buildNumber,
                              base = p0,
                              full = s \<rparr>))"

text \<open>
  Modelled from the spec: \<open>semver.compare\<close>, the ordering primitive of the third-party
  semver package, which is not part of the repository. The spec asks to "treat the base
  as comparable with standard major.minor.patch precedence": the three numeric components
  of the two base strings are compared in that order. The result is \<open>-1\<close>, \<open>0\<close> or
  \<open>1\<close>. On bases of the form \<open>N.N.N\<close> this is the order of the package.
\<close>

definition base_components :: "string \<Rightarrow> int \<times> int \<times> int" where
  "base_components b =
     (let baseParts = split CHR ''.'' b
      in (or_zero (parseInt_at baseParts 0),
          or_zero (parseInt_at baseParts 1),
          or_zero (parseInt_at baseParts 2)))"

definition semver_compare :: "string \<Rightarrow> string \<Rightarrow> int" where
  "semver_compare a b =
     (case (base_components a, base_components b) of
        ((a1, a2, a3), (b1, b2, b3)) \<Rightarrow>
          if a1 \<noteq> b1 then (if a1 < b1 then - 1 else 1)
          else if a2 \<noteq> b2 then (if a2 < b2 then - 1 else 1)
          else if a3 \<noteq> b3 then (if a3 < b3 then - 1 else 1)
          else 0)"

text \<open>\<open>compareVersions\<close>, lines 37-54.\<close>

definition compareVersions :: "string option \<Rightarrow> string option \<Rightarrow> int" where
  "compareVersions current previous =
     (case (parseFlutterVersion current, parseFlutterVersion previous) of
        (Some currentParsed, Some previousParsed) \<Rightarrow>
          let baseComparison = semver_compare (base currentParsed) (base previousParsed)
          in if baseComparison \<noteq> 0 then baseComparison
             else if num_gt (build currentParsed) (build previousParsed) then 1
             else if num_lt (build currentParsed) (build previousParsed) then - 1
             else 0
      | _ \<Rightarrow> 0)"

text \<open>\<open>compareVersions\<close> of the second copy of the action in the same file, lines
  619-636. It differs from lines 37-54 in the second build comparison, which is
  \<open><=\<close>.\<close>

definition compareVersions_619 :: "string option \<Rightarrow> string option \<Rightarrow> int" where
  "compareVersions_619 current previous =
     (case (parseFlutterVersion current, parseFlutterVersion previous) of
        (Some currentParsed, Some previousParsed) \<Rightarrow>
          let baseComparison = semver_compare (base currentParsed) (base previousParsed)
          in if baseComparison \<noteq> 0 then baseComparison
             else if num_gt (build currentParsed) (build previousParsed) then 1
             else if num_le (build currentParsed) (build previousParsed) then - 1
             else 0
      | _ \<Rightarrow> 0)"

text \<open>\<open>generateNextVersion\<close>, lines 61-70.\<close>

definition generateNextVersion :: "string option \<Rightarrow> string" where
  "generateNextVersion previousVersion =
     (case parseFlutterVersion previousVersion of
        None \<Rightarrow> ''1.0.0+1''
      | Some parsed \<Rightarrow>
          let newPatch = patch parsed + 1;
              newBuild = num_succ (build parsed)
          in number_to_string (Some (major parsed)) @ ''.'' @
             number_to_string (Some (minor parsed)) @ ''.'' @
             number_to_string (Some newPatch) @ ''+'' @
             number_to_string newBuild)"

section \<open>The data-model invariant of a parsed version\<close>



section \<open>The git and YAML collaborators\<close>

text \<open>
  Every git command runs through \<open>execGit\<close> (lines 121-154), which hands the argument
  list to the external \<open>git\<close> process and reads its exit code and output. The process
  is a parameter of the model: a function from the argument list to the result. Each
  command whose result decides what the action does is run once, so one answer per
  argument list is all that is read. \<open>yaml.load\<close> followed by the read of \<open>doc.version\<close>
  is a parameter too: it raises (\<open>Yaml_throws\<close>: malformed YAML, or a document that is
  \<open>null\<close>), or it gives the value of the \<open>version\<close> key, \<open>None\<close> when the key is
  absent.
\<close>

record git_result =
  exitCode :: int
  stdout :: string
  stderr :: string

type_synonym git = "string list \<Rightarrow> git_result"

datatype yaml = Yaml_throws | Yaml_doc "string option"

datatype js_error = Error string

definition trim :: "string \<Rightarrow> string" where
  "trim s = rev (dropWhile is_space (rev (dropWhile is_space s)))"

fun join :: "string list \<Rightarrow> string" where
  "join [] = []"
| "join [a] = a"
| "join (a # b # r) = a @ '' '' @ join (b # r)"

definition newline :: char where
  "newline = CHR 0x0A"

text \<open>The message of a failed command, lines 141.\<close>

definition git_message :: "string list \<Rightarrow> git_result \<Rightarrow> string" where
  "git_message args r =
     ''Git command failed: git '' @ join args @ [newline] @
     ''Error: '' @ trim (stderr r) @ [newline] @
     ''Output: '' @ trim (stdout r)"

text \<open>What \<open>execGit\<close> returns or throws. With \<open>throwOnError = false\<close> a failed
  command gives the empty string (and a warning, see \<open>execGit\<close> below).\<close>

definition execGit_value :: "git \<Rightarrow> string list \<Rightarrow> bool \<Rightarrow> js_error + string" where
  "execGit_value g args throwOnError =
     (let r = g args
      in if exitCode r \<noteq> 0
         then (if throwOnError then Inl (Error (git_message args r)) else Inr [])
         else Inr (trim (stdout r)))"

section \<open>The history scan: findPreviousVersion (lines 162-270)\<close>

text \<open>
  The body of the loop up to \<open>if (commitVersion)\<close>, lines 212-218: the version string
  seen at a commit, \<open>None\<close> on each path that goes on to the next commit (no content,
  \<open>yaml.load\<close> raising, no version or an empty one).
\<close>

definition version_at :: "git \<Rightarrow> (string \<Rightarrow> yaml) \<Rightarrow> string \<Rightarrow> string option" where
  "version_at g yaml_load commitHash =
     (case execGit_value g [''show'', commitHash @ '':pubspec.yaml''] False of
        Inl _ \<Rightarrow> None
      | Inr pubspecContent \<Rightarrow>
          if pubspecContent = [] then None
          else (case yaml_load pubspecContent of
                  Yaml_throws \<Rightarrow> None
                | Yaml_doc None \<Rightarrow> None
                | Yaml_doc (Some commitVersion) \<Rightarrow>
                    if commitVersion = [] then None else Some commitVersion))"

record found_version =
  fv_version :: string
  fv_commit :: string

text \<open>The loop of lines 207-246: it returns from inside (\<open>Return\<close>) or runs to the end
  of the commits (\<open>Exhausted\<close>, with the two variables of the loop).\<close>

datatype scan_result = Return string | Exhausted nat "found_version list"

fun scan :: "(string \<Rightarrow> string option) \<Rightarrow> string \<Rightarrow> string list \<Rightarrow> nat \<Rightarrow>
    found_version list \<Rightarrow> scan_result" where
  "scan at currentVersion [] sameVersionCount foundVersions =
     Exhausted sameVersionCount foundVersions"
| "scan at currentVersion (commitHash # commits) sameVersionCount foundVersions =
     (if trim commitHash = [] then scan at currentVersion commits sameVersionCount foundVersions
      else (case at commitHash of
              None \<Rightarrow> scan at currentVersion commits sameVersionCount foundVersions
            | Some commitVersion \<Rightarrow>
                let foundVersions' =
                      foundVersions @
                      [\<lparr> fv_version = commitVersion, fv_commit = take 8 commitHash \<rparr>]
                in if commitVersion = currentVersion
                   then scan at currentVersion commits (sameVersionCount + 1) foundVersions'
                   else if sameVersionCount > 1 then Return currentVersion
                   else Return commitVersion))"

text \<open>Lines 248-265, after the loop.\<close>

definition after_scan :: "string \<Rightarrow> nat \<Rightarrow> found_version list \<Rightarrow> string option" where
  "after_scan currentVersion sameVersionCount foundVersions =
     (if sameVersionCount > 1 then Some currentVersion
      else if foundVersions \<noteq> []
           then (case find (\<lambda>v. fv_version v \<noteq> currentVersion) foundVersions of
                   Some lastDifferentVersion \<Rightarrow> Some (fv_version lastDifferentVersion)
                 | None \<Rightarrow> None)
           else None)"

text \<open>Lines 186-200: the commits of the branch, newest first. The fallback to
  \<open>HEAD\<close> of lines 190-195 sits in a handler that a command run with
  \<open>throwOnError = false\<close> does not reach.\<close>

definition list_commits :: "git \<Rightarrow> string \<Rightarrow> string list" where
  "list_commits g branch =
     (case execGit_value g [''rev-list'', ''origin/'' @ branch, ''--max-count=100''] False of
        Inl _ \<Rightarrow> []
      | Inr commitHashes \<Rightarrow> filter (\<lambda>hash. trim hash \<noteq> []) (split newline commitHashes))"

text \<open>
  \<open>findPreviousVersion\<close>: the value it returns, \<open>None\<close> for \<open>null\<close>. The fetches of
  lines 168-181 do not enter the result (their output is not read, and with
  \<open>throwOnError = false\<close> they do not throw); the log lines are left out here. Nothing
  in the body throws past the handler inside the loop, so the outer handler of line 266
  has no branch of its own.
\<close>

definition findPreviousVersion ::
    "git \<Rightarrow> (string \<Rightarrow> yaml) \<Rightarrow> string \<Rightarrow> string \<Rightarrow> string option" where
  "findPreviousVersion g yaml_load branch currentVersion =
     (let commits = list_commits g branch
      in if commits = [] then None
         else (case scan (version_at g yaml_load) currentVersion commits 0 [] of
                 Return v \<Rightarrow> Some v
               | Exhausted sameVersionCount foundVersions \<Rightarrow>
                   after_scan currentVersion sameVersionCount foundVersions))"

text \<open>The versions that the scan observes, in scan order: what is left of the commits
  once those without a readable version are dropped.\<close>

definition observations :: "(string \<Rightarrow> string option) \<Rightarrow> string list \<Rightarrow> string list" where
  "observations at commits =
     List.map_filter (\<lambda>commitHash. if trim commitHash = [] then None else at commitHash) commits"

section \<open>Effects: the log and thrown errors\<close>

text \<open>
  A step of the action either returns a value or throws, and may write to the log on
  the way. The log keeps the calls of \<open>core.warning\<close> and \<open>core.error\<close> in order
  (\<open>core.info\<close> lines are left out, and so is the pictograph that opens some of the
  messages).
\<close>

datatype log_entry = Warning string | Failure string

type_synonym 'a io = "log_entry list \<Rightarrow> (js_error + 'a) \<times> log_entry list"

definition ret :: "'a \<Rightarrow> 'a io" where
  "ret x = (\<lambda>l. (Inr x, l))"

definition throw :: "js_error \<Rightarrow> 'a io" where
  "throw e = (\<lambda>l. (Inl e, l))"

definition io_bind :: "'a io \<Rightarrow> ('a \<Rightarrow> 'b io) \<Rightarrow> 'b io" where
  "io_bind m f = (\<lambda>l. case m l of (Inl e, l') \<Rightarrow> (Inl e, l') | (Inr x, l') \<Rightarrow> f x l')"

definition try_catch :: "'a io \<Rightarrow> (js_error \<Rightarrow> 'a io) \<Rightarrow> 'a io" where
  "try_catch m handler = (\<lambda>l. case m l of (Inl e, l') \<Rightarrow> handler e l' | (Inr x, l') \<Rightarrow> (Inr x, l'))"

definition warning :: "string \<Rightarrow> unit io" where
  "warning m = (\<lambda>l. (Inr (), l @ [Warning m]))"

definition error_log :: "string \<Rightarrow> unit io" where
  "error_log m = (\<lambda>l. (Inr (), l @ [Failure m]))"

fun message :: "js_error \<Rightarrow> string" where
  "message (Error m) = m"

text \<open>\<open>execGit\<close>, lines 121-154: a failed command throws when \<open>throwOnError\<close> is set
  and otherwise logs a warning and returns the empty string.\<close>

definition execGit :: "git \<Rightarrow> string list \<Rightarrow> bool \<Rightarrow> string io" where
  "execGit g args throwOnError =
     (\<lambda>l. (execGit_value g args throwOnError,
           if exitCode (g args) \<noteq> 0 \<and> \<not> throwOnError
           then l @ [Warning (git_message args (g args))] else l))"

text \<open>What a command run with \<open>throwOnError = false\<close> returns and what it logs.\<close>

definition git_out :: "git \<Rightarrow> string list \<Rightarrow> string" where
  "git_out g args = (if exitCode (g args) \<noteq> 0 then [] else trim (stdout (g args)))"

definition git_warn :: "git \<Rightarrow> string list \<Rightarrow> log_entry list" where
  "git_warn g args =
     (if exitCode (g args) \<noteq> 0 then [Warning (git_message args (g args))] else [])"

section \<open>Committing, tagging and pushing (lines 277-446)\<close>

text \<open>The loop of \<open>configureGit\<close>, lines 297-314, over the identities still to try;
  \<open>i\<close> is the index of the first of them. It returns \<open>configSuccess\<close>.\<close>

fun try_configs :: "git \<Rightarrow> (string \<times> string) list \<Rightarrow> nat \<Rightarrow> bool io" where
  "try_configs g [] i = ret False"
| "try_configs g ((email, name) # rest) i =
     try_catch
       (io_bind (execGit g [''config'', ''--local'', ''user.email'', email] True) (\<lambda>_.
        io_bind (execGit g [''config'', ''--local'', ''user.name'', name] True) (\<lambda>_.
        ret True)))
       (\<lambda>configError.
          io_bind (warning (''Config attempt '' @ nat_to_string (i + 1) @ '' failed: '' @
                            message configError)) (\<lambda>_.
          if rest = [] then throw configError else try_configs g rest (i + 1)))"

definition configureGit :: "git \<Rightarrow> string \<Rightarrow> string \<Rightarrow> unit io" where
  "configureGit g userEmail userName =
     try_catch
       (let userConfigs =
              (if userEmail \<noteq> [] \<and> userName \<noteq> [] then [(userEmail, userName)]
               else [(''41898282+github-actions[bot]@users.noreply.github.com'',
                      ''github-actions[bot]''),
                     (''action@github.com'', ''GitHub Action Auto-Fix''),
                     (''noreply@github.com'', ''GitHub Actions'')])
        in io_bind (try_configs g userConfigs 0) (\<lambda>configSuccess.
           if \<not> configSuccess then throw (Error ''All Git user configuration attempts failed'')
           else io_bind (execGit g [''config'', ''--local'', ''core.filemode'', ''false''] False) (\<lambda>_.
                io_bind (execGit g [''config'', ''--local'', ''core.autocrlf'', ''false''] False) (\<lambda>_.
                io_bind (execGit g [''config'', ''--local'', ''core.safecrlf'', ''false''] False) (\<lambda>_.
                ret ())))))
       (\<lambda>error.
          io_bind (error_log (''Failed to configure git: '' @ message error)) (\<lambda>_.
          throw error))"

definition default_commit_message :: "string \<Rightarrow> string \<Rightarrow> string" where
  "default_commit_message newVersion previousVersion =
     ''Auto-increment version to '' @ newVersion @ [newline, newline] @
     ''Previous version: '' @ previousVersion @ [newline] @
     ''New version: '' @ newVersion @ [newline] @
     ''Auto-generated by GitHub Actions'' @ [newline, newline] @
     ''[skip ci]''"

text \<open>Lines 392-408: the push of the branch and its fallback.\<close>

definition push_branch :: "git \<Rightarrow> string \<Rightarrow> unit io" where
  "push_branch g branch =
     try_catch
       (io_bind (execGit g [''push'', ''origin'', ''HEAD:'' @ branch] True) (\<lambda>_. ret ()))
       (\<lambda>pushError.
          io_bind (warning (''Initial push failed: '' @ message pushError)) (\<lambda>_.
          try_catch
            (io_bind (execGit g [''push'', ''origin'', ''HEAD''] True) (\<lambda>_. ret ()))
            (\<lambda>fallbackError.
               io_bind (error_log (''All push strategies failed: '' @ message fallbackError)) (\<lambda>_.
               throw fallbackError))))"

text \<open>Lines 410-417: the push of the tag, whose failure is caught.\<close>

definition push_tag :: "git \<Rightarrow> string \<Rightarrow> unit io" where
  "push_tag g tagName =
     try_catch
       (io_bind (execGit g [''push'', ''origin'', tagName] True) (\<lambda>_. ret ()))
       (\<lambda>tagError. warning (''Failed to push tag: '' @ message tagError))"

text \<open>
  \<open>commitAndPush\<close>, lines 344-446. In the handler the second error line (the stack
  trace of the runtime) is left out; the four commands that collect debug information
  are there, since a failing one writes a warning.
\<close>

definition commitAndPush ::
    "git \<Rightarrow> string \<Rightarrow> string \<Rightarrow> string \<Rightarrow> string \<Rightarrow> string \<Rightarrow> string \<Rightarrow> unit io" where
  "commitAndPush g branch newVersion previousVersion customMessage userEmail userName =
     try_catch
       (io_bind (configureGit g userEmail userName) (\<lambda>_.
        let commitMessage = (if customMessage \<noteq> [] then customMessage
                             else default_commit_message newVersion previousVersion)
        in io_bind (execGit g [''status'', ''--porcelain''] False) (\<lambda>status.
           if status = [] then ret ()
           else
             io_bind (execGit g [''add'', ''pubspec.yaml''] True) (\<lambda>_.
             io_bind (execGit g [''diff'', ''--cached'', ''--name-only''] False) (\<lambda>stagedFiles.
             io_bind (execGit g [''commit'', ''-m'', commitMessage] True) (\<lambda>_.
             io_bind (execGit g [''rev-parse'', ''HEAD''] False) (\<lambda>commitHash.
             let tagName = ''v'' @ newVersion
             in io_bind (execGit g [''tag'', ''-d'', tagName] False) (\<lambda>_.
                io_bind (execGit g [''push'', ''origin'', '':refs/tags/'' @ tagName] False) (\<lambda>_.
                io_bind (execGit g [''tag'', ''-a'', tagName, ''-m'', ''Release '' @ tagName] True) (\<lambda>_.
                io_bind (push_branch g branch) (\<lambda>_.
                io_bind (push_tag g tagName) (\<lambda>_.
                ret ()))))))))))))
       (\<lambda>error.
          io_bind (error_log (''Failed to commit and push: '' @ message error)) (\<lambda>_.
          io_bind (execGit g [''status'', ''--porcelain''] False) (\<lambda>_.
          io_bind (execGit g [''remote'', ''-v''] False) (\<lambda>_.
          io_bind (execGit g [''branch'', ''-v''] False) (\<lambda>_.
          io_bind (execGit g [''config'', ''--list'', ''--local''] False) (\<lambda>_.
          throw error))))))"

section \<open>The earlier copy of the push (lines 839-912)\<close>

text \<open>
  The match of \<open>/github\.com[\/:](.+?)(?:\.git)?$/\<close> against the remote URL, line 850:
  the first group of the leftmost match. The group is lazy and cannot cross a line
  break, so from a start position it is the rest of the text, without a final
  \<open>.git\<close> when something is left before it.
\<close>

definition match_repo_here :: "string \<Rightarrow> string option" where
  "match_repo_here s =
     (if take 10 s = ''github.com''
      then (case drop 10 s of
              [] \<Rightarrow> None
            | d # rest \<Rightarrow>
                if (d = CHR ''/'' \<or> d = CHR '':'') \<and> rest \<noteq> [] \<and>
                   newline \<notin> set rest \<and> CHR 0x0D \<notin> set rest
                then Some (if length rest > 4 \<and> drop (length rest - 4) rest = ''.git''
                           then take (length rest - 4) rest else rest)
                else None)
      else None)"

fun match_repo :: "string \<Rightarrow> string option" where
  "match_repo [] = None"
| "match_repo (c # cs) =
     (case match_repo_here (c # cs) of Some repo \<Rightarrow> Some repo | None \<Rightarrow> match_repo cs)"

text \<open>\<open>execGit\<close> of lines 703-732, whose message has no output part and takes the
  error text as it is.\<close>

definition git_message_723 :: "string list \<Rightarrow> git_result \<Rightarrow> string" where
  "git_message_723 args r =
     ''Git command failed: git '' @ join args @ [newline] @ ''Error: '' @ stderr r"

definition execGit_703 :: "git \<Rightarrow> string list \<Rightarrow> bool \<Rightarrow> string io" where
  "execGit_703 g args throwOnError =
     (\<lambda>l. let r = g args
          in if exitCode r \<noteq> 0
             then (if throwOnError then (Inl (Error (git_message_723 args r)), l)
                   else (Inr [], l @ [Warning (git_message_723 args r)]))
             else (Inr (trim (stdout r)), l))"

text \<open>\<open>configureGit\<close> of lines 839-863.\<close>

definition configureGit_839 :: "git \<Rightarrow> string \<Rightarrow> unit io" where
  "configureGit_839 g token =
     try_catch
       (io_bind (execGit_703 g [''config'', ''--local'', ''user.email'', ''action@github.com''] True) (\<lambda>_.
        io_bind (execGit_703 g [''config'', ''--local'', ''user.name'', ''GitHub Action Auto-Fix''] True) (\<lambda>_.
        if token \<noteq> []
        then io_bind (execGit_703 g [''config'', ''--get'', ''remote.origin.url''] False) (\<lambda>remoteUrl.
             if remoteUrl \<noteq> []
             then (case match_repo remoteUrl of
                     Some repo \<Rightarrow>
                       let authenticatedUrl =
                             ''https://x-access-token:'' @ token @ ''@github.com/'' @ repo @ ''.git''
                       in io_bind (execGit_703 g [''remote'', ''set-url'', ''origin'', authenticatedUrl] True)
                            (\<lambda>_. ret ())
                   | None \<Rightarrow> ret ())
             else ret ())
        else ret ())))
       (\<lambda>error.
          io_bind (warning (''Failed to configure git: '' @ message error)) (\<lambda>_.
          throw error))"

definition default_commit_message_877 :: "string \<Rightarrow> string \<Rightarrow> string" where
  "default_commit_message_877 newVersion previousVersion =
     ''Auto-increment version to '' @ newVersion @ [newline, newline] @
     ''Previous version: '' @ previousVersion @ [newline] @
     ''New version: '' @ newVersion @ [newline] @
     ''Auto-generated by GitHub Actions''"

text \<open>\<open>commitAndPush\<close> of lines 873-912: every command after the status check runs
  with \<open>throwOnError = true\<close> and there is one handler, which throws again.\<close>

definition commitAndPush_873 ::
    "git \<Rightarrow> string \<Rightarrow> string \<Rightarrow> string \<Rightarrow> string \<Rightarrow> string \<Rightarrow> unit io" where
  "commitAndPush_873 g branch newVersion previousVersion customMessage token =
     try_catch
       (io_bind (configureGit_839 g token) (\<lambda>_.
        let commitMessage = (if customMessage \<noteq> [] then customMessage
                             else default_commit_message_877 newVersion previousVersion)
        in io_bind (execGit_703 g [''status'', ''--porcelain''] False) (\<lambda>status.
           if status = [] then ret ()
           else
             io_bind (execGit_703 g [''add'', ''pubspec.yaml''] True) (\<lambda>_.
             io_bind (execGit_703 g [''commit'', ''-m'', commitMessage] True) (\<lambda>_.
             let tagName = ''v'' @ newVersion
             in io_bind (execGit_703 g [''tag'', ''-a'', tagName, ''-m'', ''Release '' @ tagName] True) (\<lambda>_.
                io_bind (execGit_703 g [''push'', ''origin'', ''HEAD:'' @ branch] True) (\<lambda>_.
                io_bind (execGit_703 g [''push'', ''origin'', tagName] True) (\<lambda>_.
                ret ()))))))))
       (\<lambda>error.
          io_bind (error_log (''Failed to commit and push: '' @ message error)) (\<lambda>_.
          throw error))"

section \<open>The run (lines 451-571)\<close>

text \<open>
  The working copy of \<open>pubspec.yaml\<close> as the action sees it through \<open>fs\<close> and
  js-yaml: no file (\<open>None\<close>), a file that cannot be read as a document, or a document,
  of which the value of the \<open>version\<close> key is kept. \<open>writable\<close> tells whether
  dumping and writing the file back succeeds.
\<close>

record workspace =
  pubspec :: "yaml option"
  writable :: bool

record inputs =
  input_branch :: string
  input_commit_message :: string
  input_git_user_email :: string
  input_git_user_name :: string

text \<open>\<open>getCurrentVersion\<close>, lines 77-86: \<open>doc.version || null\<close>, and \<open>null\<close> when
  reading throws.\<close>

definition getCurrentVersion :: "workspace \<Rightarrow> string option" where
  "getCurrentVersion ws =
     (case pubspec ws of
        Some (Yaml_doc (Some v)) \<Rightarrow> if v = [] then None else Some v
      | _ \<Rightarrow> None)"

text \<open>\<open>updatePubspecVersion\<close>, lines 94-113: the success flag and the working copy
  afterwards.\<close>

definition updatePubspecVersion :: "workspace \<Rightarrow> string \<Rightarrow> bool \<times> workspace" where
  "updatePubspecVersion ws newVersion =
     (case pubspec ws of
        Some (Yaml_doc _) \<Rightarrow>
          if writable ws then (True, ws\<lparr> pubspec := Some (Yaml_doc (Some newVersion)) \<rparr>)
          else (False, ws)
      | _ \<Rightarrow> (False, ws))"

text \<open>What a run leaves behind: the calls of \<open>core.setOutput\<close> in order, the message of
  \<open>core.setFailed\<close> if it was called, the working copy, and the log of the push.\<close>

record outcome =
  outputs :: "(string \<times> string) list"
  failed :: "string option"
  final_workspace :: workspace
  push_log :: "log_entry list"

text \<open>
  The correction, written twice in the source (lines 504-528 and 541-564) with the same
  steps: \<open>baseVersion\<close> is the version handed to \<open>generateNextVersion\<close> and to the
  commit message as the previous one. An error thrown by \<open>commitAndPush\<close> reaches the
  handler of \<open>run\<close>, line 567.
\<close>

definition apply_correction ::
    "inputs \<Rightarrow> git \<Rightarrow> workspace \<Rightarrow> string \<Rightarrow> (string \<times> string) list \<Rightarrow> string \<Rightarrow> outcome" where
  "apply_correction inp g ws branch outs baseVersion =
     (let newVersion = generateNextVersion (Some baseVersion)
      in case updatePubspecVersion ws newVersion of
           (False, ws') \<Rightarrow>
             \<lparr> outputs = outs, failed = Some ''Failed to update pubspec.yaml'',
               final_workspace = ws', push_log = [] \<rparr>
         | (True, ws') \<Rightarrow>
             (case commitAndPush g branch newVersion baseVersion (input_commit_message inp)
                     (input_git_user_email inp) (input_git_user_name inp) [] of
                (Inl error, l) \<Rightarrow>
                  \<lparr> outputs = outs, failed = Some (''Action failed: '' @ message error),
                    final_workspace = ws', push_log = l \<rparr>
              | (Inr _, l) \<Rightarrow>
                  \<lparr> outputs = outs @ [(''version-updated'', ''true''),
                                      (''new-version'', newVersion),
                                      (''current-version'', newVersion)],
                    failed = None, final_workspace = ws', push_log = l \<rparr>))"

definition run :: "inputs \<Rightarrow> git \<Rightarrow> (string \<Rightarrow> yaml) \<Rightarrow> workspace \<Rightarrow> outcome" where
  "run inp g yaml_load ws =
     (let branch = (if input_branch inp \<noteq> [] then input_branch inp else ''main'')
      in if pubspec ws = None
         then \<lparr> outputs = [], failed = Some ''pubspec.yaml not found at pubspec.yaml'',
                final_workspace = ws, push_log = [] \<rparr>
         else (case getCurrentVersion ws of
                 None \<Rightarrow>
                   \<lparr> outputs = [], failed = Some ''Could not read version from pubspec.yaml'',
                     final_workspace = ws, push_log = [] \<rparr>
               | Some currentVersion \<Rightarrow>
                   let previousVersion = findPreviousVersion g yaml_load branch currentVersion;
                       outs = [(''previous-version'',
                                  (case previousVersion of
                                     None \<Rightarrow> ''none''
                                   | Some p \<Rightarrow> if p = [] then ''none'' else p)),
                               (''current-version'', currentVersion)]
                   in (case previousVersion of
                         None \<Rightarrow>
                           \<lparr> outputs = outs @ [(''version-updated'', ''false'')], failed = None,
                             final_workspace = ws, push_log = [] \<rparr>
                       | Some p \<Rightarrow>
                           if p = []
                           then \<lparr> outputs = outs @ [(''version-updated'', ''false'')],
                                  failed = None, final_workspace = ws, push_log = [] \<rparr>
                           else
                             let comparison = compareVersions (Some currentVersion) (Some p)
                             in if currentVersion = p
                                then apply_correction inp g ws branch outs currentVersion
                                else if comparison > 0
                                then \<lparr> outputs = outs @ [(''version-updated'', ''false'')],
                                       failed = None, final_workspace = ws, push_log = [] \<rparr>
                                else if comparison < 0
                                then apply_correction inp g ws branch outs p
                                else \<lparr> outputs = outs, failed = None,
                                       final_workspace = ws, push_log = [] \<rparr>)))"

section \<open>Example collaborators\<close>

text \<open>
  Concrete collaborators on which the theorems below are run. \<open>example_yaml\<close> reads a
  one-line manifest \<open>version: X\<close>. \<open>example_git\<close> answers for a branch \<open>main\<close> whose
  commits, newest first, are given with the content of their \<open>pubspec.yaml\<close>; the
  working tree is modified, and every command not listed succeeds with no output.
  \<open>failing\<close> makes the listed commands fail.
\<close>

definition example_yaml :: "string \<Rightarrow> yaml" where
  "example_yaml content =
     (if take 9 content = ''version: '' then Yaml_doc (Some (drop 9 content))
      else Yaml_doc None)"

definition ok :: "string \<Rightarrow> git_result" where
  "ok out = \<lparr> exitCode = 0, stdout = out, stderr = [] \<rparr>"

fun unlines :: "string list \<Rightarrow> string" where
  "unlines [] = []"
| "unlines (l # ls) = l @ [newline] @ unlines ls"

definition example_git :: "(string \<times> string) list \<Rightarrow> git" where
  "example_git history args =
     (if args = [''rev-list'', ''origin/main'', ''--max-count=100'']
      then ok (unlines (map fst history))
      else if args = [''status'', ''--porcelain''] then ok '' M pubspec.yaml''
      else if args = [''config'', ''--get'', ''remote.origin.url'']
      then ok ''https://github.com/Abdo-ka/flutter-version-checker.git''
      else (case args of
              [cmd, object] \<Rightarrow>
                if cmd = ''show''
                then (case find (\<lambda>(h, _). h @ '':pubspec.yaml'' = object) history of
                        Some (_, content) \<Rightarrow> ok content
                      | None \<Rightarrow> \<lparr> exitCode = 128, stdout = [], stderr = ''fatal: invalid object'' \<rparr>)
                else ok []
            | _ \<Rightarrow> ok []))"

definition failing :: "string list list \<Rightarrow> git \<Rightarrow> git" where
  "failing cmds g args =
     (if args \<in> set cmds then \<lparr> exitCode = 1, stdout = [], stderr = ''rejected'' \<rparr> else g args)"

definition example_inputs :: inputs where
  "example_inputs = \<lparr> input_branch = ''main'', input_commit_message = [],
                       input_git_user_email = [], input_git_user_name = [] \<rparr>"

definition example_workspace :: "string \<Rightarrow> workspace" where
  "example_workspace v = \<lparr> pubspec = Some (Yaml_doc (Some v)), writable = True \<rparr>"

text \<open>Histories, newest commit first: the version of the end-to-end scenario committed
  twice over an older one; one commit with a version over a commit without any; one
  greater version; and a version followed by the same version written differently.\<close>

definition reuse_history :: "(string \<times> string) list" where
  "reuse_history = [(''c1'', ''version: 50.8.47+177''), (''c2'', ''version: 50.8.47+177''),
                    (''c3'', ''version: 50.8.46+175'')]"

definition single_history :: "(string \<times> string) list" where
  "single_history = [(''c1'', ''version: 1.0.1+6''), (''c2'', ''name: app'')]"

definition regressed_history :: "(string \<times> string) list" where
  "regressed_history = [(''c1'', ''version: 1.0.5+10'')]"

definition respelled_history :: "(string \<times> string) list" where
  "respelled_history = [(''c1'', ''version: 1.0.0+1''), (''c2'', ''version: 1.0.0+01'')]"

text \<open>The collaborator of the end-to-end scenario, with a remote that rejects the tag
  \<open>v50.8.48+178\<close>.\<close>

definition tag_rejecting_git :: git where
  "tag_rejecting_git =
     failing [[''push'', ''origin'', ''v50.8.48+178'']] (example_git reuse_history)"

section \<open>Properties of the string primitives\<close>

lemma split_not_Nil: "split sep s \<noteq> []"
  by (induction s) (auto split: list.splits)



















lemma parseFlutterVersion_Some:
  "s \<noteq> [] \<Longrightarrow> \<exists>p. parseFlutterVersion (Some s) = Some p"
  using split_not_Nil [of "CHR ''+''" s]
  by (auto simp: parseFlutterVersion_def Let_def split: list.splits)


lemma base_components_base:
  "parseFlutterVersion v = Some p \<Longrightarrow> base_components (base p) = (major p, minor p, patch p)"
  by (auto simp: parseFlutterVersion_def base_components_def Let_def
      split: option.splits list.splits if_splits)











section \<open>Properties of parsing, comparison and increment\<close>








section \<open>The order that compareVersions defines\<close>

text \<open>
  On lines 37-54 a version compares equal to itself, swapping the arguments negates the
  result, "less" is transitive, and two versions with integer builds compare equal only
  when their four components agree. The copy at lines 619-636 never answers "equal" for
  two versions with integer builds.
\<close>

lemma compareVersions_refl: "compareVersions v v = 0"
  by (auto simp: compareVersions_def semver_compare_def num_gt_def num_lt_def Let_def
      split: option.splits prod.splits)

lemma compareVersions_unparsed: "compareVersions v (Some []) = 0"
  by (simp add: compareVersions_def parseFlutterVersion_def split: option.splits)

lemma semver_compare_cases:
  "semver_compare a b = 0 \<or> semver_compare a b = 1 \<or> semver_compare a b = - 1"
  by (simp add: semver_compare_def split: prod.splits)

lemma semver_compare_eq_0:
  "semver_compare a b = 0 \<longleftrightarrow> base_components a = base_components b"
  by (auto simp: semver_compare_def split: prod.splits)

lemma semver_compare_antisym: "semver_compare a b = - semver_compare b a"
  by (auto simp: semver_compare_def split: prod.splits)

lemma semver_compare_trans:
  "semver_compare a b = - 1 \<Longrightarrow> semver_compare b c \<noteq> 1 \<Longrightarrow> semver_compare a c = - 1"
  by (auto simp: semver_compare_def split: prod.splits if_splits)

lemma semver_compare_trans2:
  "semver_compare a b = 0 \<Longrightarrow> semver_compare b c = x \<Longrightarrow> semver_compare a c = x"
proof -
  assume "semver_compare a b = 0" and x: "semver_compare b c = x"
  then have "base_components a = base_components b" by (simp add: semver_compare_eq_0)
  then have "semver_compare a c = semver_compare b c" by (simp add: semver_compare_def)
  with x show ?thesis by simp
qed

lemma compareVersions_antisym: "compareVersions a b = - compareVersions b a"
proof (cases "parseFlutterVersion a")
  case None
  then show ?thesis by (simp add: compareVersions_def split: option.splits)
next
  case p: (Some p)
  show ?thesis
  proof (cases "parseFlutterVersion b")
    case None
    then show ?thesis by (simp add: compareVersions_def split: option.splits)
  next
    case q: (Some q)
    have "semver_compare (base q) (base p) = - semver_compare (base p) (base q)"
      by (rule semver_compare_antisym)
    then show ?thesis
      by (cases "build p"; cases "build q")
         (auto simp: compareVersions_def p q num_gt_def num_lt_def Let_def)
  qed
qed

lemma compareVersions_less_iff:
  assumes "parseFlutterVersion a = Some p" "parseFlutterVersion b = Some q"
  shows "compareVersions a b = - 1 \<longleftrightarrow>
           semver_compare (base p) (base q) = - 1 \<or>
           (semver_compare (base p) (base q) = 0 \<and> num_lt (build p) (build q))"
  using semver_compare_cases [of "base p" "base q"]
  by (auto simp: compareVersions_def assms Let_def num_gt_def num_lt_def split: option.splits)

lemma compareVersions_less_parsed:
  "compareVersions a b = - 1 \<Longrightarrow> \<exists>p q. parseFlutterVersion a = Some p \<and> parseFlutterVersion b = Some q"
  by (auto simp: compareVersions_def split: option.splits)

lemma compareVersions_trans:
  assumes "compareVersions a b = - 1" "compareVersions b c = - 1"
  shows "compareVersions a c = - 1"
proof -
  obtain p q where p: "parseFlutterVersion a = Some p" and q: "parseFlutterVersion b = Some q"
    using compareVersions_less_parsed [OF assms(1)] by blast
  obtain r where r: "parseFlutterVersion c = Some r"
    using compareVersions_less_parsed [OF assms(2)] by auto
  from assms(1) have ab: "semver_compare (base p) (base q) = - 1 \<or>
           (semver_compare (base p) (base q) = 0 \<and> num_lt (build p) (build q))"
    by (simp add: compareVersions_less_iff [OF p q])
  from assms(2) have bc: "semver_compare (base q) (base r) = - 1 \<or>
           (semver_compare (base q) (base r) = 0 \<and> num_lt (build q) (build r))"
    by (simp add: compareVersions_less_iff [OF q r])
  have "semver_compare (base p) (base r) = - 1 \<or>
           (semver_compare (base p) (base r) = 0 \<and> num_lt (build p) (build r))"
    using ab bc
      semver_compare_trans [of "base p" "base q" "base r"]
      semver_compare_trans2 [of "base p" "base q" "base r"]
      semver_compare_trans2 [of "base r" "base q" "base p"]
      semver_compare_antisym [of "base p" "base q"]
      semver_compare_antisym [of "base q" "base r"]
      semver_compare_antisym [of "base p" "base r"]
    by (auto simp: num_lt_def split: option.splits)
  then show ?thesis by (simp add: compareVersions_less_iff [OF p r])
qed

lemma compareVersions_equal_components:
  assumes "parseFlutterVersion a = Some p" "parseFlutterVersion b = Some q"
    and "build p \<noteq> None" "build q \<noteq> None"
    and "compareVersions a b = 0"
  shows "major p = major q \<and> minor p = minor q \<and> patch p = patch q \<and> build p = build q"
proof -
  from assms have s: "semver_compare (base p) (base q) = 0"
    and b: "build p = build q"
    by (auto simp: compareVersions_def Let_def num_gt_def num_lt_def split: if_splits)
  from s have "base_components (base p) = base_components (base q)"
    by (simp add: semver_compare_eq_0)
  with base_components_base [OF assms(1)] base_components_base [OF assms(2)] b
  show ?thesis by simp
qed

lemma compareVersions_619_never_equal:
  assumes "parseFlutterVersion a = Some p" "parseFlutterVersion b = Some q"
    and "build p \<noteq> None" "build q \<noteq> None"
  shows "compareVersions_619 a b \<noteq> 0"
  using assms
  by (auto simp: compareVersions_619_def Let_def num_gt_def num_le_def)

text \<open>
  Claim C2 at the input of the test "should detect same versions": a version compared
  with itself. The copy of \<open>compareVersions\<close> at lines 619-636 answers \<open>-1\<close>
  (less), the one at lines 37-54 answers \<open>0\<close> (equal).
\<close>

theorem compareVersions_619_same_version:
  "compareVersions_619 (Some ''50.8.47+177'') (Some ''50.8.47+177'') = - 1 \<and>
   compareVersions (Some ''50.8.47+177'') (Some ''50.8.47+177'') = 0"
  by code_simp

section \<open>Properties of the history scan\<close>

lemma observations_Nil [simp]: "observations at [] = []"
  by (simp add: observations_def)

lemma observations_Cons:
  "observations at (h # hs) =
     (if trim h = [] then observations at hs
      else (case at h of None \<Rightarrow> observations at hs | Some v \<Rightarrow> v # observations at hs))"
  by (simp add: observations_def List.map_filter_simps split: option.splits)

lemma scan_Return:
  "dropWhile (\<lambda>v. v = cur) (observations at commits) = d # rest \<Longrightarrow>
   scan at cur commits n found =
     Return (if n + length (takeWhile (\<lambda>v. v = cur) (observations at commits)) > 1
             then cur else d)"
proof (induction commits arbitrary: n found)
  case Nil
  then show ?case by simp
next
  case (Cons h hs)
  show ?case
  proof (cases "trim h = []")
    case True
    with Cons show ?thesis by (simp add: observations_Cons)
  next
    case False
    show ?thesis
    proof (cases "at h")
      case None
      with False Cons show ?thesis by (simp add: observations_Cons)
    next
      case (Some v)
      show ?thesis
      proof (cases "v = cur")
        case True
        with False Some Cons.prems
        have "dropWhile (\<lambda>v. v = cur) (observations at hs) = d # rest"
          by (simp add: observations_Cons)
        from Cons.IH [OF this] False Some True show ?thesis
          by (simp add: observations_Cons Let_def)
      next
        case False2: False
        with False Some Cons.prems have "d = v" by (simp add: observations_Cons)
        with False Some False2 show ?thesis
          by (simp add: observations_Cons Let_def)
      qed
    qed
  qed
qed

lemma scan_Exhausted:
  "dropWhile (\<lambda>v. v = cur) (observations at commits) = [] \<Longrightarrow>
   \<exists>found'. scan at cur commits n found =
              Exhausted (n + length (observations at commits)) found' \<and>
            (\<forall>f \<in> set found'. f \<in> set found \<or> fv_version f = cur)"
proof (induction commits arbitrary: n found)
  case Nil
  then show ?case by simp
next
  case (Cons h hs)
  show ?case
  proof (cases "trim h = []")
    case True
    with Cons show ?thesis by (simp add: observations_Cons)
  next
    case False
    show ?thesis
    proof (cases "at h")
      case None
      with False Cons show ?thesis by (simp add: observations_Cons)
    next
      case (Some v)
      with False Cons.prems have v: "v = cur"
        and rest: "dropWhile (\<lambda>v. v = cur) (observations at hs) = []"
        by (auto simp: observations_Cons split: if_splits)
      from Cons.IH [OF rest, of "n + 1"
          "found @ [\<lparr> fv_version = v, fv_commit = take 8 h \<rparr>]"]
      obtain found' where
        "scan at cur hs (n + 1) (found @ [\<lparr> fv_version = v, fv_commit = take 8 h \<rparr>]) =
           Exhausted (n + 1 + length (observations at hs)) found'"
        and "\<forall>f \<in> set found'.
               f \<in> set (found @ [\<lparr> fv_version = v, fv_commit = take 8 h \<rparr>]) \<or> fv_version f = cur"
        by blast
      with False Some v show ?thesis
        by (auto simp: observations_Cons Let_def)
    qed
  qed
qed

lemma find_all_current:
  "\<forall>f \<in> set found. fv_version f = cur \<Longrightarrow> find (\<lambda>v. fv_version v \<noteq> cur) found = None"
  by (simp add: find_None_iff)

lemma scan_from_start_Exhausted:
  assumes "scan at cur commits 0 [] = Exhausted n found"
  shows "find (\<lambda>v. fv_version v \<noteq> cur) found = None \<and> n = length (observations at commits)
         \<and> dropWhile (\<lambda>v. v = cur) (observations at commits) = []"
proof (cases "dropWhile (\<lambda>v. v = cur) (observations at commits)")
  case Nil
  from scan_Exhausted [OF Nil, of 0 "[]"] assms
  show ?thesis using Nil by (auto intro: find_all_current)
next
  case (Cons d rest)
  from scan_Return [OF Cons, of 0 "[]"] assms show ?thesis by simp
qed

lemma findPreviousVersion_eq:
  "findPreviousVersion g yaml_load branch cur =
     (let obs = observations (version_at g yaml_load) (list_commits g branch)
      in case dropWhile (\<lambda>v. v = cur) obs of
           d # _ \<Rightarrow> Some (if length (takeWhile (\<lambda>v. v = cur) obs) > 1 then cur else d)
         | [] \<Rightarrow> if length obs > 1 then Some cur else None)"
proof (cases "list_commits g branch = []")
  case True
  then show ?thesis by (simp add: findPreviousVersion_def)
next
  case False
  let ?at = "version_at g yaml_load"
  let ?commits = "list_commits g branch"
  show ?thesis
  proof (cases "dropWhile (\<lambda>v. v = cur) (observations ?at ?commits)")
    case Nil
    from scan_Exhausted [OF Nil, of 0 "[]"] obtain found' where
      sc: "scan ?at cur ?commits 0 [] = Exhausted (length (observations ?at ?commits)) found'"
      and all: "\<forall>f \<in> set found'. fv_version f = cur"
      by auto
    from all have "find (\<lambda>v. fv_version v \<noteq> cur) found' = None"
      by (rule find_all_current)
    then have "after_scan cur (length (observations ?at ?commits)) found' =
        (if length (observations ?at ?commits) > 1 then Some cur else None)"
      by (simp add: after_scan_def)
    with False sc have lhs: "findPreviousVersion g yaml_load branch cur =
        (if length (observations ?at ?commits) > 1 then Some cur else None)"
      by (simp add: findPreviousVersion_def)
    show ?thesis
      unfolding lhs Let_def Nil by simp
  next
    case (Cons d rest)
    from scan_Return [OF Cons, of 0 "[]"] False
    have lhs: "findPreviousVersion g yaml_load branch cur =
        Some (if length (takeWhile (\<lambda>v. v = cur) (observations ?at ?commits)) > 1
              then cur else d)"
      by (simp add: findPreviousVersion_def)
    show ?thesis
      unfolding lhs Let_def Cons by simp
  qed
qed

section \<open>What the scan returns\<close>

text \<open>
  Claim C1. When the current version has been observed more than once before the first
  observed version that differs from it (observed versions are compared as strings, as
  the scan does), \<open>findPreviousVersion\<close> returns the current version itself, whatever
  the differing version is.
\<close>

theorem findPreviousVersion_reuse:
  assumes "1 < length (takeWhile (\<lambda>v. v = currentVersion)
                 (observations (version_at g yaml_load) (list_commits g branch)))"
  shows "findPreviousVersion g yaml_load branch currentVersion = Some currentVersion"
proof -
  let ?obs = "observations (version_at g yaml_load) (list_commits g branch)"
  have "length (takeWhile (\<lambda>v. v = currentVersion) ?obs) \<le> length ?obs"
    by (rule length_takeWhile_le)
  with assms have "1 < length ?obs" by simp
  with assms show ?thesis
    by (simp add: findPreviousVersion_eq Let_def split: list.splits)
qed

lemma reuse_observations:
  "observations (version_at (example_git reuse_history) example_yaml)
     (list_commits (example_git reuse_history) ''main'') = [''50.8.47+177'', ''50.8.47+177'', ''50.8.46+175'']"
  by code_simp

text \<open>The theorem on the history of the end-to-end scenario: \<open>50.8.47+177\<close> twice,
  then \<open>50.8.46+175\<close>.\<close>

theorem findPreviousVersion_reuse_witness:
  "observations (version_at (example_git reuse_history) example_yaml)
     (list_commits (example_git reuse_history) ''main'')
     = [''50.8.47+177'', ''50.8.47+177'', ''50.8.46+175''] \<and>
   findPreviousVersion (example_git reuse_history) example_yaml ''main'' ''50.8.47+177''
     = Some ''50.8.47+177''"
proof -
  have "1 < length (takeWhile (\<lambda>v. v = ''50.8.47+177'')
                 (observations (version_at (example_git reuse_history) example_yaml)
                    (list_commits (example_git reuse_history) ''main'')))"
    unfolding reuse_observations by simp
  from findPreviousVersion_reuse [OF this] reuse_observations show ?thesis by simp
qed

text \<open>
  Claim C10. \<open>findPreviousVersion\<close> returns \<open>null\<close>, the current version, or the
  first observed version that differs from the current one. Whenever the loop runs to
  its end, no collected version differs from the current one: the search of lines
  256-262 finds nothing, and what follows the loop returns the current version when the
  count is above one and \<open>null\<close> otherwise.
\<close>

theorem findPreviousVersion_results:
  "(findPreviousVersion g yaml_load branch currentVersion = None \<or>
    findPreviousVersion g yaml_load branch currentVersion = Some currentVersion \<or>
    (\<exists>d rest. dropWhile (\<lambda>v. v = currentVersion)
                 (observations (version_at g yaml_load) (list_commits g branch)) = d # rest \<and>
               findPreviousVersion g yaml_load branch currentVersion = Some d)) \<and>
   (\<forall>sameVersionCount foundVersions.
      scan (version_at g yaml_load) currentVersion (list_commits g branch) 0 [] =
        Exhausted sameVersionCount foundVersions \<longrightarrow>
      find (\<lambda>v. fv_version v \<noteq> currentVersion) foundVersions = None \<and>
      after_scan currentVersion sameVersionCount foundVersions =
        (if sameVersionCount > 1 then Some currentVersion else None))"
proof (intro conjI allI impI)
  show "findPreviousVersion g yaml_load branch currentVersion = None \<or>
    findPreviousVersion g yaml_load branch currentVersion = Some currentVersion \<or>
    (\<exists>d rest. dropWhile (\<lambda>v. v = currentVersion)
                 (observations (version_at g yaml_load) (list_commits g branch)) = d # rest \<and>
               findPreviousVersion g yaml_load branch currentVersion = Some d)"
    by (simp add: findPreviousVersion_eq Let_def split: list.splits)
next
  fix sameVersionCount foundVersions
  assume "scan (version_at g yaml_load) currentVersion (list_commits g branch) 0 [] =
        Exhausted sameVersionCount foundVersions"
  from scan_from_start_Exhausted [OF this]
  have f: "find (\<lambda>v. fv_version v \<noteq> currentVersion) foundVersions = None" by simp
  then show "find (\<lambda>v. fv_version v \<noteq> currentVersion) foundVersions = None" .
  from f show "after_scan currentVersion sameVersionCount foundVersions =
        (if sameVersionCount > 1 then Some currentVersion else None)"
    by (simp add: after_scan_def)
qed

text \<open>The theorem on a history whose loop runs to its end with one match.\<close>

theorem findPreviousVersion_results_witness:
  "scan (version_at (example_git single_history) example_yaml) ''1.0.1+6''
     (list_commits (example_git single_history) ''main'') 0 [] =
     Exhausted 1 [\<lparr> fv_version = ''1.0.1+6'', fv_commit = ''c1'' \<rparr>] \<and>
   find (\<lambda>v. fv_version v \<noteq> ''1.0.1+6'') [\<lparr> fv_version = ''1.0.1+6'', fv_commit = ''c1'' \<rparr>] = None \<and>
   after_scan ''1.0.1+6'' 1 [\<lparr> fv_version = ''1.0.1+6'', fv_commit = ''c1'' \<rparr>] = None \<and>
   findPreviousVersion (example_git single_history) example_yaml ''main'' ''1.0.1+6'' = None"
proof -
  have s: "scan (version_at (example_git single_history) example_yaml) ''1.0.1+6''
     (list_commits (example_git single_history) ''main'') 0 [] =
     Exhausted 1 [\<lparr> fv_version = ''1.0.1+6'', fv_commit = ''c1'' \<rparr>]"
    by code_simp
  have r: "findPreviousVersion (example_git single_history) example_yaml ''main'' ''1.0.1+6'' = None"
    by code_simp
  from findPreviousVersion_results [of "example_git single_history" example_yaml "''main''" "''1.0.1+6''"] s r
  show ?thesis by simp
qed

section \<open>Properties of the push and of the run\<close>

lemma io_bind_execGit_False:
  "io_bind (execGit g args False) f l = f (git_out g args) (l @ git_warn g args)"
  by (simp add: io_bind_def execGit_def execGit_value_def git_out_def git_warn_def Let_def)

lemma io_bind_execGit_True_ok:
  "exitCode (g args) = 0 \<Longrightarrow> io_bind (execGit g args True) f l = f (trim (stdout (g args))) l"
  by (simp add: io_bind_def execGit_def execGit_value_def Let_def)

lemma execGit_True_ok:
  "exitCode (g args) = 0 \<Longrightarrow> execGit g args True l = (Inr (trim (stdout (g args))), l)"
  by (simp add: execGit_def execGit_value_def Let_def)

lemma execGit_True_fail:
  "exitCode (g args) \<noteq> 0 \<Longrightarrow> execGit g args True l = (Inl (Error (git_message args (g args))), l)"
  by (simp add: execGit_def execGit_value_def Let_def)

lemma io_bind_ret: "io_bind m (\<lambda>_. ret ()) l = (case m l of (Inl e, l') \<Rightarrow> (Inl e, l') | (Inr x, l') \<Rightarrow> (Inr (), l'))"
  by (simp add: io_bind_def ret_def)

lemma push_tag_result:
  "push_tag g tagName l =
     (Inr (), l @ (if exitCode (g [''push'', ''origin'', tagName]) \<noteq> 0
                   then [Warning (''Failed to push tag: '' @
                           git_message [''push'', ''origin'', tagName] (g [''push'', ''origin'', tagName]))]
                   else []))"
  by (simp add: push_tag_def try_catch_def io_bind_ret execGit_True_ok execGit_True_fail warning_def)

lemma io_bind_push_tag:
  "io_bind (push_tag g tagName) f l =
     f () (l @ (if exitCode (g [''push'', ''origin'', tagName]) \<noteq> 0
                then [Warning (''Failed to push tag: '' @
                        git_message [''push'', ''origin'', tagName] (g [''push'', ''origin'', tagName]))]
                else []))"
  by (simp add: io_bind_def push_tag_result)

lemma push_branch_ok:
  assumes "exitCode (g [''push'', ''origin'', ''HEAD:'' @ branch]) = 0 \<or>
           exitCode (g [''push'', ''origin'', ''HEAD'']) = 0"
  shows "\<exists>w. \<forall>l. push_branch g branch l = (Inr (), l @ w)"
proof (cases "exitCode (g [''push'', ''origin'', ''HEAD:'' @ branch]) = 0")
  case True
  then have "\<forall>l. push_branch g branch l = (Inr (), l @ [])"
    by (simp add: push_branch_def try_catch_def io_bind_ret execGit_True_ok)
  then show ?thesis by blast
next
  case False
  with assms have ok: "exitCode (g [''push'', ''origin'', ''HEAD'']) = 0" by simp
  from False ok have "\<forall>l. push_branch g branch l =
      (Inr (), l @ [Warning (''Initial push failed: '' @
          git_message [''push'', ''origin'', ''HEAD:'' @ branch] (g [''push'', ''origin'', ''HEAD:'' @ branch]))])"
    by (simp add: push_branch_def try_catch_def io_bind_ret execGit_True_ok execGit_True_fail
        warning_def io_bind_def ret_def)
  then show ?thesis by blast
qed

lemma getCurrentVersion_Some:
  "getCurrentVersion ws = Some v \<Longrightarrow> pubspec ws = Some (Yaml_doc (Some v)) \<and> v \<noteq> []"
  by (auto simp: getCurrentVersion_def split: option.splits yaml.splits if_splits)

lemma commitAndPush_tag_push_fails:
  assumes cfg: "configureGit g userEmail userName [] = (Inr (), lc)"
    and status: "git_out g [''status'', ''--porcelain''] \<noteq> []"
    and add: "exitCode (g [''add'', ''pubspec.yaml'']) = 0"
    and commit: "exitCode (g [''commit'', ''-m'',
                    (if customMessage \<noteq> [] then customMessage
                     else default_commit_message newVersion previousVersion)]) = 0"
    and tag: "exitCode (g [''tag'', ''-a'', ''v'' @ newVersion, ''-m'',
                           ''Release '' @ ''v'' @ newVersion]) = 0"
    and push: "exitCode (g [''push'', ''origin'', ''HEAD:'' @ branch]) = 0 \<or>
               exitCode (g [''push'', ''origin'', ''HEAD'']) = 0"
    and tagpush: "exitCode (g [''push'', ''origin'', ''v'' @ newVersion]) \<noteq> 0"
  shows "\<exists>l. commitAndPush g branch newVersion previousVersion customMessage userEmail userName [] =
           (Inr (), l @ [Warning (''Failed to push tag: '' @
                           git_message [''push'', ''origin'', ''v'' @ newVersion]
                             (g [''push'', ''origin'', ''v'' @ newVersion]))])"
proof -
  obtain w where pb: "\<And>l. push_branch g branch l = (Inr (), l @ w)"
    using push_branch_ok [OF push] by blast
  have c1: "\<And>f. io_bind (configureGit g userEmail userName) f [] = f () lc"
    by (simp add: io_bind_def cfg)
  have c2: "\<And>f l. io_bind (push_branch g branch) f l = f () (l @ w)"
    by (simp add: io_bind_def pb)
  have "commitAndPush g branch newVersion previousVersion customMessage userEmail userName [] =
          (Inr (), (lc @ git_warn g [''status'', ''--porcelain''] @
             git_warn g [''diff'', ''--cached'', ''--name-only''] @
             git_warn g [''rev-parse'', ''HEAD''] @
             git_warn g [''tag'', ''-d'', ''v'' @ newVersion] @
             git_warn g [''push'', ''origin'', '':refs/tags/'' @ ''v'' @ newVersion] @ w) @
            [Warning (''Failed to push tag: '' @
                           git_message [''push'', ''origin'', ''v'' @ newVersion]
                             (g [''push'', ''origin'', ''v'' @ newVersion]))])"
    unfolding commitAndPush_def try_catch_def
    using status tagpush add commit tag
    by (simp add: c1 c2 io_bind_execGit_False
        io_bind_execGit_True_ok Let_def io_bind_push_tag ret_def)
  then show ?thesis by blast
qed

section \<open>What the run does\<close>

text \<open>
  Claim C4. When the scan observes no version that differs from the current one and at
  most one match of it (in particular when there is no commit at all),
  \<open>findPreviousVersion\<close> returns \<open>null\<close> and the run reports \<open>previous-version\<close> as
  \<open>none\<close> and \<open>version-updated\<close> as \<open>false\<close>; it does not fail and leaves the
  manifest as it was.
\<close>

theorem first_build_accepted:
  assumes cur: "getCurrentVersion ws = Some currentVersion"
    and br: "branch = (if input_branch inp \<noteq> [] then input_branch inp else ''main'')"
    and nodiff: "dropWhile (\<lambda>v. v = currentVersion)
                   (observations (version_at g yaml_load) (list_commits g branch)) = []"
    and atmost: "length (observations (version_at g yaml_load) (list_commits g branch)) \<le> 1"
  shows "findPreviousVersion g yaml_load branch currentVersion = None \<and>
         run inp g yaml_load ws =
           \<lparr> outputs = [(''previous-version'', ''none''), (''current-version'', currentVersion),
                        (''version-updated'', ''false'')],
             failed = None, final_workspace = ws, push_log = [] \<rparr>"
proof -
  have none: "findPreviousVersion g yaml_load branch currentVersion = None"
    unfolding findPreviousVersion_eq Let_def nodiff using atmost by simp
  from getCurrentVersion_Some [OF cur] have "pubspec ws \<noteq> None" by simp
  with cur none br show ?thesis
    by (simp add: run_def Let_def)
qed

text \<open>The theorem on a history with one match over a commit without a version, and on
  an empty list of commits.\<close>

theorem first_build_accepted_witness:
  "findPreviousVersion (example_git single_history) example_yaml ''main'' ''1.0.1+6'' = None \<and>
   run example_inputs (example_git single_history) example_yaml (example_workspace ''1.0.1+6'') =
     \<lparr> outputs = [(''previous-version'', ''none''), (''current-version'', ''1.0.1+6''),
                  (''version-updated'', ''false'')],
       failed = None, final_workspace = example_workspace ''1.0.1+6'', push_log = [] \<rparr> \<and>
   list_commits (example_git []) ''main'' = [] \<and>
   findPreviousVersion (example_git []) example_yaml ''main'' ''1.0.1+6'' = None \<and>
   run example_inputs (example_git []) example_yaml (example_workspace ''1.0.1+6'') =
     \<lparr> outputs = [(''previous-version'', ''none''), (''current-version'', ''1.0.1+6''),
                  (''version-updated'', ''false'')],
       failed = None, final_workspace = example_workspace ''1.0.1+6'', push_log = [] \<rparr>"
proof -
  have cur: "getCurrentVersion (example_workspace ''1.0.1+6'') = Some ''1.0.1+6''"
    by code_simp
  have br: "''main'' = (if input_branch example_inputs \<noteq> [] then input_branch example_inputs
                        else ''main'')"
    by (simp add: example_inputs_def)
  have o1: "observations (version_at (example_git single_history) example_yaml)
              (list_commits (example_git single_history) ''main'') = [''1.0.1+6'']"
    by code_simp
  have e: "list_commits (example_git []) ''main'' = []"
    by code_simp
  have o2: "observations (version_at (example_git []) example_yaml)
              (list_commits (example_git []) ''main'') = []"
    unfolding e by simp
  have n1: "dropWhile (\<lambda>v. v = ''1.0.1+6'')
              (observations (version_at (example_git single_history) example_yaml)
                 (list_commits (example_git single_history) ''main'')) = []"
    unfolding o1 by simp
  have a1: "length (observations (version_at (example_git single_history) example_yaml)
              (list_commits (example_git single_history) ''main'')) \<le> 1"
    unfolding o1 by simp
  have n2: "dropWhile (\<lambda>v. v = ''1.0.1+6'')
              (observations (version_at (example_git []) example_yaml)
                 (list_commits (example_git []) ''main'')) = []"
    unfolding o2 by simp
  have a2: "length (observations (version_at (example_git []) example_yaml)
              (list_commits (example_git []) ''main'')) \<le> 1"
    unfolding o2 by simp
  from first_build_accepted [OF cur br n1 a1] first_build_accepted [OF cur br n2 a2] e
  show ?thesis by simp
qed

text \<open>
  Claim C5. When the version that the scan returns is greater than the current one under
  \<open>compareVersions\<close>, the version written to the manifest and reported as
  \<open>new-version\<close> is \<open>generateNextVersion\<close> of the returned version, not of the current
  one, and \<open>version-updated\<close> is \<open>true\<close> (the manifest being writable and the
  commit and push going through).
\<close>

theorem regression_corrected_from_reference:
  assumes cur: "getCurrentVersion ws = Some currentVersion"
    and br: "branch = (if input_branch inp \<noteq> [] then input_branch inp else ''main'')"
    and prev: "findPreviousVersion g yaml_load branch currentVersion = Some previousVersion"
    and less: "compareVersions (Some currentVersion) (Some previousVersion) < 0"
    and wr: "writable ws"
    and push: "commitAndPush g branch (generateNextVersion (Some previousVersion)) previousVersion
                 (input_commit_message inp) (input_git_user_email inp) (input_git_user_name inp) []
               = (Inr (), l)"
  shows "run inp g yaml_load ws =
           \<lparr> outputs = [(''previous-version'', previousVersion),
                        (''current-version'', currentVersion),
                        (''version-updated'', ''true''),
                        (''new-version'', generateNextVersion (Some previousVersion)),
                        (''current-version'', generateNextVersion (Some previousVersion))],
             failed = None,
             final_workspace =
               ws\<lparr> pubspec := Some (Yaml_doc (Some (generateNextVersion (Some previousVersion)))) \<rparr>,
             push_log = l \<rparr>"
proof -
  from getCurrentVersion_Some [OF cur]
  have ps: "pubspec ws = Some (Yaml_doc (Some currentVersion))" by simp
  have ne: "previousVersion \<noteq> []"
    using less compareVersions_unparsed [of "Some currentVersion"] by auto
  have diff: "currentVersion \<noteq> previousVersion"
    using less compareVersions_refl [of "Some currentVersion"] by auto
  have upd: "updatePubspecVersion ws (generateNextVersion (Some previousVersion)) =
      (True, ws\<lparr> pubspec := Some (Yaml_doc (Some (generateNextVersion (Some previousVersion)))) \<rparr>)"
    by (simp add: updatePubspecVersion_def ps wr)
  have "run inp g yaml_load ws =
          apply_correction inp g ws branch
            [(''previous-version'', previousVersion), (''current-version'', currentVersion)]
            previousVersion"
    using cur prev less ne diff ps br by (simp add: run_def Let_def)
  also have "\<dots> = \<lparr> outputs = [(''previous-version'', previousVersion),
                        (''current-version'', currentVersion),
                        (''version-updated'', ''true''),
                        (''new-version'', generateNextVersion (Some previousVersion)),
                        (''current-version'', generateNextVersion (Some previousVersion))],
             failed = None,
             final_workspace =
               ws\<lparr> pubspec := Some (Yaml_doc (Some (generateNextVersion (Some previousVersion)))) \<rparr>,
             push_log = l \<rparr>"
    by (simp add: apply_correction_def Let_def upd push)
  finally show ?thesis .
qed

text \<open>The theorem on the example of the claim: current \<open>1.0.3+8\<close>, previous
  \<open>1.0.5+10\<close>, corrected to \<open>1.0.6+11\<close>.\<close>

theorem regression_corrected_from_reference_witness:
  "findPreviousVersion (example_git regressed_history) example_yaml ''main'' ''1.0.3+8''
     = Some ''1.0.5+10'' \<and>
   compareVersions (Some ''1.0.3+8'') (Some ''1.0.5+10'') < 0 \<and>
   generateNextVersion (Some ''1.0.5+10'') = ''1.0.6+11'' \<and>
   run example_inputs (example_git regressed_history) example_yaml (example_workspace ''1.0.3+8'') =
     \<lparr> outputs = [(''previous-version'', ''1.0.5+10''), (''current-version'', ''1.0.3+8''),
                  (''version-updated'', ''true''), (''new-version'', ''1.0.6+11''),
                  (''current-version'', ''1.0.6+11'')],
       failed = None, final_workspace = example_workspace ''1.0.6+11'', push_log = [] \<rparr>"
proof -
  have cur: "getCurrentVersion (example_workspace ''1.0.3+8'') = Some ''1.0.3+8''"
    by code_simp
  have br: "''main'' = (if input_branch example_inputs \<noteq> [] then input_branch example_inputs
                        else ''main'')"
    by (simp add: example_inputs_def)
  have prev: "findPreviousVersion (example_git regressed_history) example_yaml ''main'' ''1.0.3+8''
     = Some ''1.0.5+10''"
    by code_simp
  have less: "compareVersions (Some ''1.0.3+8'') (Some ''1.0.5+10'') < 0"
    by code_simp
  have wr: "writable (example_workspace ''1.0.3+8'')"
    by (simp add: example_workspace_def)
  have nx: "generateNextVersion (Some ''1.0.5+10'') = ''1.0.6+11''"
    by code_simp
  have push: "commitAndPush (example_git regressed_history) ''main''
                 (generateNextVersion (Some ''1.0.5+10'')) ''1.0.5+10''
                 (input_commit_message example_inputs) (input_git_user_email example_inputs)
                 (input_git_user_name example_inputs) [] = (Inr (), [])"
    by code_simp
  from regression_corrected_from_reference [OF cur br prev less wr push] prev less nx
  show ?thesis by (simp add: example_workspace_def)
qed

lemma run_equal_respelled:
  assumes cur: "getCurrentVersion ws = Some currentVersion"
    and br: "branch = (if input_branch inp \<noteq> [] then input_branch inp else ''main'')"
    and prev: "findPreviousVersion g yaml_load branch currentVersion = Some previousVersion"
    and ne: "previousVersion \<noteq> []"
    and diff: "currentVersion \<noteq> previousVersion"
    and eq: "compareVersions (Some currentVersion) (Some previousVersion) = 0"
  shows "run inp g yaml_load ws =
           \<lparr> outputs = [(''previous-version'', previousVersion),
                        (''current-version'', currentVersion)],
             failed = None, final_workspace = ws, push_log = [] \<rparr>"
proof -
  from getCurrentVersion_Some [OF cur] have "pubspec ws \<noteq> None" by simp
  with cur prev ne diff eq br show ?thesis
    by (simp add: run_def Let_def)
qed

text \<open>
  Claim C3 at a history in which the current version \<open>1.0.0+1\<close> is observed once and
  the next commit holds \<open>1.0.0+01\<close>, equal to it under \<open>compareVersions\<close>. The scan
  returns \<open>1.0.0+01\<close>; the run takes none of its branches: the manifest keeps
  \<open>1.0.0+1\<close>, and \<open>version-updated\<close> is not set.
\<close>

theorem respelled_equal_version_not_corrected:
  "observations (version_at (example_git respelled_history) example_yaml)
     (list_commits (example_git respelled_history) ''main'') = [''1.0.0+1'', ''1.0.0+01''] \<and>
   findPreviousVersion (example_git respelled_history) example_yaml ''main'' ''1.0.0+1''
     = Some ''1.0.0+01'' \<and>
   compareVersions (Some ''1.0.0+1'') (Some ''1.0.0+01'') = 0 \<and>
   run example_inputs (example_git respelled_history) example_yaml (example_workspace ''1.0.0+1'') =
     \<lparr> outputs = [(''previous-version'', ''1.0.0+01''), (''current-version'', ''1.0.0+1'')],
       failed = None, final_workspace = example_workspace ''1.0.0+1'', push_log = [] \<rparr>"
  by code_simp

text \<open>
  Claim C9, as amended. In \<open>commitAndPush\<close> of lines 344-446, when git is configured,
  the working tree has changes, staging, commit, tag creation and the push of the branch
  (at the first or the second attempt) succeed and the push of the tag fails, the
  operation still returns normally, the failure being the last warning of its log; the
  correction that called it does not fail and reports \<open>version-updated\<close> as \<open>true\<close>.
\<close>

theorem tag_push_failure_not_fatal:
  assumes nv: "newVersion = generateNextVersion (Some baseVersion)"
    and cfg: "configureGit g (input_git_user_email inp) (input_git_user_name inp) [] = (Inr (), lc)"
    and status: "git_out g [''status'', ''--porcelain''] \<noteq> []"
    and add: "exitCode (g [''add'', ''pubspec.yaml'']) = 0"
    and commit: "exitCode (g [''commit'', ''-m'',
                    (if input_commit_message inp \<noteq> [] then input_commit_message inp
                     else default_commit_message newVersion baseVersion)]) = 0"
    and tag: "exitCode (g [''tag'', ''-a'', ''v'' @ newVersion, ''-m'',
                           ''Release '' @ ''v'' @ newVersion]) = 0"
    and push: "exitCode (g [''push'', ''origin'', ''HEAD:'' @ branch]) = 0 \<or>
               exitCode (g [''push'', ''origin'', ''HEAD'']) = 0"
    and tagpush: "exitCode (g [''push'', ''origin'', ''v'' @ newVersion]) \<noteq> 0"
    and upd: "updatePubspecVersion ws newVersion = (True, ws')"
  shows "\<exists>l. commitAndPush g branch newVersion baseVersion (input_commit_message inp)
               (input_git_user_email inp) (input_git_user_name inp) [] =
             (Inr (), l @ [Warning (''Failed to push tag: '' @
                             git_message [''push'', ''origin'', ''v'' @ newVersion]
                               (g [''push'', ''origin'', ''v'' @ newVersion]))]) \<and>
             apply_correction inp g ws branch outs baseVersion =
               \<lparr> outputs = outs @ [(''version-updated'', ''true''), (''new-version'', newVersion),
                                   (''current-version'', newVersion)],
                 failed = None, final_workspace = ws',
                 push_log = l @ [Warning (''Failed to push tag: '' @
                             git_message [''push'', ''origin'', ''v'' @ newVersion]
                               (g [''push'', ''origin'', ''v'' @ newVersion]))] \<rparr>"
proof -
  from commitAndPush_tag_push_fails [OF cfg status add commit tag push tagpush]
  obtain l where cp: "commitAndPush g branch newVersion baseVersion (input_commit_message inp)
               (input_git_user_email inp) (input_git_user_name inp) [] =
             (Inr (), l @ [Warning (''Failed to push tag: '' @
                             git_message [''push'', ''origin'', ''v'' @ newVersion]
                               (g [''push'', ''origin'', ''v'' @ newVersion]))])"
    by blast
  have "apply_correction inp g ws branch outs baseVersion =
               \<lparr> outputs = outs @ [(''version-updated'', ''true''), (''new-version'', newVersion),
                                   (''current-version'', newVersion)],
                 failed = None, final_workspace = ws',
                 push_log = l @ [Warning (''Failed to push tag: '' @
                             git_message [''push'', ''origin'', ''v'' @ newVersion]
                               (g [''push'', ''origin'', ''v'' @ newVersion]))] \<rparr>"
    unfolding apply_correction_def Let_def nv [symmetric] upd
    by (simp add: cp)
  with cp show ?thesis by blast
qed

text \<open>The theorem on the end-to-end scenario with a remote that rejects the tag, and the
  whole run there.\<close>

theorem tag_push_failure_not_fatal_witness:
  "exitCode (tag_rejecting_git [''push'', ''origin'', ''v50.8.48+178'']) \<noteq> 0 \<and>
   run example_inputs tag_rejecting_git example_yaml (example_workspace ''50.8.47+177'') =
     \<lparr> outputs = [(''previous-version'', ''50.8.47+177''), (''current-version'', ''50.8.47+177''),
                  (''version-updated'', ''true''), (''new-version'', ''50.8.48+178''),
                  (''current-version'', ''50.8.48+178'')],
       failed = None, final_workspace = example_workspace ''50.8.48+178'',
       push_log = [Warning (''Failed to push tag: '' @
                     git_message [''push'', ''origin'', ''v50.8.48+178'']
                       \<lparr> exitCode = 1, stdout = [], stderr = ''rejected'' \<rparr>)] \<rparr> \<and>
   (\<exists>l. apply_correction example_inputs tag_rejecting_git (example_workspace ''50.8.47+177'')
          ''main'' [] ''50.8.47+177'' =
          \<lparr> outputs = [(''version-updated'', ''true''), (''new-version'', ''50.8.48+178''),
                       (''current-version'', ''50.8.48+178'')],
            failed = None, final_workspace = example_workspace ''50.8.48+178'',
            push_log = l @ [Warning (''Failed to push tag: '' @
                     git_message [''push'', ''origin'', ''v50.8.48+178'']
                       (tag_rejecting_git [''push'', ''origin'', ''v50.8.48+178'']))] \<rparr>)"
proof -
  have nv: "''50.8.48+178'' = generateNextVersion (Some ''50.8.47+177'')"
    by code_simp
  have cfg: "configureGit tag_rejecting_git (input_git_user_email example_inputs)
               (input_git_user_name example_inputs) [] = (Inr (), [])"
    by code_simp
  have status: "git_out tag_rejecting_git [''status'', ''--porcelain''] \<noteq> []"
    by code_simp
  have add: "exitCode (tag_rejecting_git [''add'', ''pubspec.yaml'']) = 0"
    by code_simp
  have commit: "exitCode (tag_rejecting_git [''commit'', ''-m'',
                    (if input_commit_message example_inputs \<noteq> []
                     then input_commit_message example_inputs
                     else default_commit_message ''50.8.48+178'' ''50.8.47+177'')]) = 0"
    by code_simp
  have tag: "exitCode (tag_rejecting_git [''tag'', ''-a'', ''v'' @ ''50.8.48+178'', ''-m'',
                           ''Release '' @ ''v'' @ ''50.8.48+178'']) = 0"
    by code_simp
  have push: "exitCode (tag_rejecting_git [''push'', ''origin'', ''HEAD:'' @ ''main'']) = 0 \<or>
               exitCode (tag_rejecting_git [''push'', ''origin'', ''HEAD'']) = 0"
    by code_simp
  have tagpush: "exitCode (tag_rejecting_git [''push'', ''origin'', ''v'' @ ''50.8.48+178'']) \<noteq> 0"
    by code_simp
  have upd: "updatePubspecVersion (example_workspace ''50.8.47+177'') ''50.8.48+178'' =
               (True, example_workspace ''50.8.48+178'')"
    by code_simp
  have r: "run example_inputs tag_rejecting_git example_yaml (example_workspace ''50.8.47+177'') =
     \<lparr> outputs = [(''previous-version'', ''50.8.47+177''), (''current-version'', ''50.8.47+177''),
                  (''version-updated'', ''true''), (''new-version'', ''50.8.48+178''),
                  (''current-version'', ''50.8.48+178'')],
       failed = None, final_workspace = example_workspace ''50.8.48+178'',
       push_log = [Warning (''Failed to push tag: '' @
                     git_message [''push'', ''origin'', ''v50.8.48+178'']
                       \<lparr> exitCode = 1, stdout = [], stderr = ''rejected'' \<rparr>)] \<rparr>"
    by code_simp
  from tag_push_failure_not_fatal [OF nv cfg status add commit tag push tagpush upd,
      where outs = "[]"]
  have "\<exists>l. apply_correction example_inputs tag_rejecting_git (example_workspace ''50.8.47+177'')
          ''main'' [] ''50.8.47+177'' =
          \<lparr> outputs = [(''version-updated'', ''true''), (''new-version'', ''50.8.48+178''),
                       (''current-version'', ''50.8.48+178'')],
            failed = None, final_workspace = example_workspace ''50.8.48+178'',
            push_log = l @ [Warning (''Failed to push tag: '' @
                     git_message [''push'', ''origin'', ''v50.8.48+178'']
                       (tag_rejecting_git [''push'', ''origin'', ''v50.8.48+178'']))] \<rparr>"
    by auto
  with r tagpush show ?thesis by simp
qed

text \<open>
  Claim C9 as stated fails on the copy of \<open>commitAndPush\<close> at lines 873-912: with the
  same collaborator, where everything but the push of the tag succeeds, it throws the
  error of that push.
\<close>

theorem commitAndPush_873_tag_push_fatal:
  "commitAndPush_873 tag_rejecting_git ''main'' ''50.8.48+178'' ''50.8.47+177'' [] ''token'' [] =
     (Inl (Error (git_message_723 [''push'', ''origin'', ''v50.8.48+178'']
                    \<lparr> exitCode = 1, stdout = [], stderr = ''rejected'' \<rparr>)),
      [Failure (''Failed to commit and push: '' @
                git_message_723 [''push'', ''origin'', ''v50.8.48+178'']
                  \<lparr> exitCode = 1, stdout = [], stderr = ''rejected'' \<rparr>)])"
  by code_simp

end
